theory Spec2Isabelle
  imports Main
begin

section \<open>Data model of the page router (class ModernWebApp, script.js)\<close>

text \<open>
  A page identifier is a JavaScript string. The five page templates and the error
  template are static template literals (getHomeContent, getAboutContent,
  getProjectsContent, getContactContent, get404Content, getErrorContent); each is named
  by one constructor of \<open>payload\<close>. The four title literals of updatePageTitle are
  named by constructors of \<open>title\<close>; \<open>InheritedMember n\<close> is the string conversion of
  the member \<open>n\<close> that the object literal inherits from Object.prototype, and
  \<open>StaticTitle\<close> is the title of the document as served.
\<close>

type_synonym page = string

datatype payload =
  HomeContent | AboutContent | ProjectsContent | ContactContent | NotFoundContent | ErrorContent

datatype title =
  HomeTitle | AboutTitle | ProjectsTitle | ContactTitle | InheritedMember string | StaticTitle

text \<open>
  Host operations that a host can reject. Inside the try block of loadPage: the
  innerHTML setter (an XML document raises a SyntaxError for markup that is not
  well-formed), requestAnimationFrame (called by smoothScrollTo) and the CustomEvent
  constructor (called by dispatchPageLoadEvent). In navigateTo: history.pushState,
  which raises a SecurityError for a URL of another origin. The IntersectionObserver
  constructor is a capability of its own, since setupAnimations tests for it.
\<close>

datatype hostop =
  SetInnerHTML payload | RequestAnimationFrame | NewCustomEvent | PushState string

datatype exn = ReferenceError | HostException hostop

record host =
  hasIntersectionObserver :: bool
  hasGtag :: bool
  throws :: "hostop \<Rightarrow> bool"

text \<open>
  Elements carrying the class animate-on-scroll: those of the static document, and those
  created by the n-th assignment to innerHTML (an assignment creates fresh elements).
  In document order the static elements come before or after the content of the
  container.
\<close>

datatype elem = StaticElem nat | ContentElem nat nat

datatype console_msg = ContainerNotFound | ErrorLoadingPage exn | ObserverNotSupported

text \<open>The effects a run leaves behind, in the order in which they happen.\<close>

datatype effect =
    NavUpdated page
  | ConsoleError console_msg
  | ConsoleWarn console_msg
  | FadeOutStarted
  | WaitElapsed nat
  | ContentReplaced payload
  | FadeInStarted
  | TransitionCleared
  | ObserversArmed "elem list"
  | ScrollRequested nat
  | TitleSet title
  | PageLoaded page nat
  | HistoryPushed page string
  | GtagConfig string

text \<open>The two suspension points of loadPage: the awaits on fadeOut and on fadeIn.\<close>

datatype cont = AfterFadeOut page | AfterFadeIn page

record container =
  innerHTML :: payload
  opacity :: string
  transform :: string
  transition :: string

text \<open>
  The fields of the application object (currentPage, isLoading, animationObserver: the
  set of targets the current observer watches, None for null) together with the part of
  the browser the router touches: the element with id main-content and whether the
  document contains it, the navigation links (data-page attribute, active flag), the
  animate-on-scroll elements (static ones before the container, those inside it, static
  ones after it), the elements carrying the class in-view, the document title, the
  pushed history entries (state page, URL), the pending timers (due time,
  continuation), the clock in milliseconds, the trace of effects, and the exceptions
  that no handler of the class catches (the browser reports them later to the error and
  unhandledrejection listeners at the end of the script).
\<close>

record world =
  currentPage :: page
  isLoading :: bool
  animationObserver :: "elem set option"
  hasMainContent :: bool
  mainContent :: container
  navLinks :: "(page option \<times> bool) list"
  staticBefore :: "elem list"
  contentElems :: "elem list"
  staticAfter :: "elem list"
  swaps :: nat
  inView :: "elem set"
  docTitle :: title
  history :: "(page \<times> string) list"
  timers :: "(nat \<times> cont) list"
  clock :: nat
  trace :: "effect list"
  uncaught :: "exn list"

text \<open>Either a normal return or a thrown exception, each with the state reached.\<close>

datatype outcome = Returned world | Threw exn world

definition andThen :: "outcome \<Rightarrow> (world \<Rightarrow> outcome) \<Rightarrow> outcome" where
  "andThen r f = (case r of Returned s \<Rightarrow> f s | Threw e s \<Rightarrow> Threw e s)"

definition emit :: "effect \<Rightarrow> world \<Rightarrow> world" where
  "emit a s = s\<lparr>trace := trace s @ [a]\<rparr>"

section \<open>Content resolution and titles\<close>

text \<open>getPageContent: a switch with strict equality on the page string.\<close>

definition getPageContent :: "page \<Rightarrow> payload" where
  "getPageContent p =
     (if p = ''home'' then HomeContent
      else if p = ''about'' then AboutContent
      else if p = ''projects'' then ProjectsContent
      else if p = ''contact'' then ContactContent
      else NotFoundContent)"

definition getErrorContent :: payload where
  "getErrorContent = ErrorContent"

text \<open>Number of animate-on-scroll elements in each template.\<close>

fun animatedCount :: "payload \<Rightarrow> nat" where
  "animatedCount HomeContent = 5"
| "animatedCount AboutContent = 2"
| "animatedCount ProjectsContent = 6"
| "animatedCount ContactContent = 2"
| "animatedCount NotFoundContent = 0"
| "animatedCount ErrorContent = 0"

text \<open>
  updatePageTitle reads \<open>titles[page] || titles.home\<close> from an object literal with the
  own properties home, about, projects and contact. A property read on an object literal
  also finds the members inherited from Object.prototype, which are functions or
  objects and hence truthy.
\<close>

datatype jsvalue = JSUndefined | JSString title | JSInherited string

definition titlesOwn :: "page \<Rightarrow> title option" where
  "titlesOwn p =
     (if p = ''home'' then Some HomeTitle
      else if p = ''about'' then Some AboutTitle
      else if p = ''projects'' then Some ProjectsTitle
      else if p = ''contact'' then Some ContactTitle
      else None)"

definition objectPrototypeMembers :: "string list" where
  "objectPrototypeMembers =
     [''constructor'', ''hasOwnProperty'', ''isPrototypeOf'', ''propertyIsEnumerable'',
      ''toLocaleString'', ''toString'', ''valueOf'', ''__proto__'',
      ''__defineGetter__'', ''__defineSetter__'', ''__lookupGetter__'', ''__lookupSetter__'']"

definition titlesGet :: "page \<Rightarrow> jsvalue" where
  "titlesGet p =
     (case titlesOwn p of
        Some t \<Rightarrow> JSString t
      | None \<Rightarrow> if p \<in> set objectPrototypeMembers then JSInherited p else JSUndefined)"

definition titleFor :: "page \<Rightarrow> title" where
  "titleFor p =
     (case titlesGet p of
        JSUndefined \<Rightarrow> HomeTitle
      | JSString t \<Rightarrow> t
      | JSInherited n \<Rightarrow> InheritedMember n)"

definition updatePageTitle :: "page \<Rightarrow> world \<Rightarrow> world" where
  "updatePageTitle p s = emit (TitleSet (titleFor p)) (s\<lparr>docTitle := titleFor p\<rparr>)"

section \<open>Scroll-triggered reveal\<close>

text \<open>document.querySelectorAll('.animate-on-scroll'), in document order.\<close>

definition animatedElements :: "world \<Rightarrow> elem list" where
  "animatedElements s = staticBefore s @ contentElems s @ staticAfter s"

text \<open>
  setupScrollAnimations: disconnect the previous observer, construct a new one (a
  ReferenceError where the host has no IntersectionObserver), observe every
  animate-on-scroll element of the document.
\<close>

definition disconnectObserver :: "world \<Rightarrow> world" where
  "disconnectObserver s =
     (case animationObserver s of
        None \<Rightarrow> s
      | Some targets \<Rightarrow> s\<lparr>animationObserver := Some {}\<rparr>)"

definition setupScrollAnimations :: "host \<Rightarrow> world \<Rightarrow> outcome" where
  "setupScrollAnimations h s =
     (let s1 = disconnectObserver s in
      if \<not> hasIntersectionObserver h then Threw ReferenceError s1
      else Returned (emit (ObserversArmed (animatedElements s1))
             (s1\<lparr>animationObserver := Some (set (animatedElements s1))\<rparr>)))"

text \<open>setupAnimations: the guarded entry point used by setup().\<close>

definition setupAnimations :: "host \<Rightarrow> world \<Rightarrow> outcome" where
  "setupAnimations h s =
     (if \<not> hasIntersectionObserver h then Returned (emit (ConsoleWarn ObserverNotSupported) s)
      else setupScrollAnimations h s)"

text \<open>
  The observer's callback, for one entry (target, isIntersecting) and for a list of
  entries (entries.forEach).
\<close>

definition unobserve :: "elem \<Rightarrow> world \<Rightarrow> world" where
  "unobserve e s =
     (case animationObserver s of
        None \<Rightarrow> s
      | Some targets \<Rightarrow> s\<lparr>animationObserver := Some (targets - {e})\<rparr>)"

definition onEntry :: "elem \<times> bool \<Rightarrow> world \<Rightarrow> world" where
  "onEntry en s =
     (if snd en then unobserve (fst en) (s\<lparr>inView := insert (fst en) (inView s)\<rparr>) else s)"

fun observerCallback :: "(elem \<times> bool) list \<Rightarrow> world \<Rightarrow> world" where
  "observerCallback [] s = s"
| "observerCallback (en # ens) s = observerCallback ens (onEntry en s)"

text \<open>
  The host reports intersection changes of the targets an observer watches, and of no
  other element.
\<close>

definition observed :: "world \<Rightarrow> elem \<Rightarrow> bool" where
  "observed s e = (case animationObserver s of None \<Rightarrow> False | Some targets \<Rightarrow> e \<in> targets)"

definition intersectionChange :: "(elem \<times> bool) list \<Rightarrow> world \<Rightarrow> world" where
  "intersectionChange ens s = observerCallback (filter (\<lambda>en. observed s (fst en)) ens) s"

section \<open>The transition: loadPage\<close>

text \<open>
  updateNavigation: a link is active exactly when its data-page attribute is the page.
\<close>

definition updateNavigation :: "page \<Rightarrow> world \<Rightarrow> world" where
  "updateNavigation p s =
     emit (NavUpdated p) (s\<lparr>navLinks := map (\<lambda>l. (fst l, fst l = Some p)) (navLinks s)\<rparr>)"

text \<open>
  fadeOut: the promise executor sets the styles and starts the 150 ms timer; the page
  argument is the page of the suspended loadPage call that the timer resumes.
\<close>

definition fadeOut :: "page \<Rightarrow> world \<Rightarrow> world" where
  "fadeOut p s =
     emit FadeOutStarted
       (s\<lparr>mainContent := (mainContent s)\<lparr>opacity := ''0'', transform := ''translateY(20px)'',
              transition := ''all 250ms cubic-bezier(0.4, 0.0, 0.2, 1.0)''\<rparr>,
          timers := timers s @ [(clock s + 150, AfterFadeOut p)]\<rparr>)"

text \<open>fadeIn: the executor sets the visible styles and starts the 250 ms timer.\<close>

definition fadeIn :: "page \<Rightarrow> world \<Rightarrow> world" where
  "fadeIn p s =
     emit FadeInStarted
       (s\<lparr>mainContent := (mainContent s)\<lparr>opacity := ''1'', transform := ''translateY(0)''\<rparr>,
          timers := timers s @ [(clock s + 250, AfterFadeIn p)]\<rparr>)"

text \<open>The timer callback of fadeIn clears the inline transition before resolving.\<close>

definition fadeInDone :: "world \<Rightarrow> world" where
  "fadeInDone s = emit TransitionCleared (s\<lparr>mainContent := (mainContent s)\<lparr>transition := []\<rparr>\<rparr>)"

text \<open>
  Assignment to mainContent.innerHTML: the old content elements are replaced by fresh
  ones, as many as the template has.
\<close>

definition setInnerHTML :: "host \<Rightarrow> payload \<Rightarrow> world \<Rightarrow> outcome" where
  "setInnerHTML h c s =
     (if throws h (SetInnerHTML c) then Threw (HostException (SetInnerHTML c)) s
      else Returned (emit (ContentReplaced c)
             (s\<lparr>mainContent := (mainContent s)\<lparr>innerHTML := c\<rparr>,
                contentElems := map (ContentElem (swaps s)) [0 ..< animatedCount c],
                swaps := Suc (swaps s)\<rparr>)))"

text \<open>
  smoothScrollTo requests an animation frame; the frames of the scroll animation are not
  part of the router and are not followed further.
\<close>

definition smoothScrollTo :: "host \<Rightarrow> nat \<Rightarrow> world \<Rightarrow> outcome" where
  "smoothScrollTo h pos s =
     (if throws h RequestAnimationFrame then Threw (HostException RequestAnimationFrame) s
      else Returned (emit (ScrollRequested pos) s))"

text \<open>dispatchPageLoadEvent: a CustomEvent pageLoaded with the page and Date.now().\<close>

definition dispatchPageLoadEvent :: "host \<Rightarrow> page \<Rightarrow> world \<Rightarrow> outcome" where
  "dispatchPageLoadEvent h p s =
     (if throws h NewCustomEvent then Threw (HostException NewCustomEvent) s
      else Returned (emit (PageLoaded p (clock s)) s))"

text \<open>
  The catch and finally blocks of loadPage. An exception thrown by the catch block
  itself leaves the async function after the finally block: the promise of loadPage is
  rejected, and no caller handles it.
\<close>

definition loadPage_catch :: "host \<Rightarrow> exn \<Rightarrow> world \<Rightarrow> outcome" where
  "loadPage_catch h e s =
     setInnerHTML h getErrorContent (emit (ConsoleError (ErrorLoadingPage e)) s)"

definition loadPage_finally :: "world \<Rightarrow> world" where
  "loadPage_finally s = s\<lparr>isLoading := False\<rparr>"

definition loadPage_settle :: "host \<Rightarrow> outcome \<Rightarrow> world" where
  "loadPage_settle h r =
     (case r of
        Returned s \<Rightarrow> loadPage_finally s
      | Threw e s \<Rightarrow>
          (case loadPage_catch h e s of
             Returned s1 \<Rightarrow> loadPage_finally s1
           | Threw e1 s1 \<Rightarrow> (loadPage_finally s1)\<lparr>uncaught := uncaught s1 @ [e1]\<rparr>))"

text \<open>
  loadPage up to its first await: the guard, the two field assignments,
  updateNavigation, the lookup of the container, and the executor of fadeOut. The
  second parameter of the source (pushState) is never read and is left out.
\<close>

definition loadPage :: "page \<Rightarrow> world \<Rightarrow> world" where
  "loadPage p s =
     (if isLoading s then s
      else
        let s1 = updateNavigation p (s\<lparr>isLoading := True, currentPage := p\<rparr>) in
        if \<not> hasMainContent s1
        then (emit (ConsoleError ContainerNotFound) s1)\<lparr>isLoading := False\<rparr>
        else fadeOut p s1)"

text \<open>loadPage between the two awaits: resolve the content, swap it in, start fadeIn.\<close>

definition loadPage_afterFadeOut :: "host \<Rightarrow> page \<Rightarrow> world \<Rightarrow> world" where
  "loadPage_afterFadeOut h p s =
     (case setInnerHTML h (getPageContent p) s of
        Returned s1 \<Rightarrow> fadeIn p s1
      | Threw e s1 \<Rightarrow> loadPage_settle h (Threw e s1))"

text \<open>
  loadPage after the second await: re-arm the observers, scroll to the top, set the
  title, dispatch pageLoaded.
\<close>

definition loadPage_tryTail :: "host \<Rightarrow> page \<Rightarrow> world \<Rightarrow> outcome" where
  "loadPage_tryTail h p s =
     andThen (andThen (andThen (setupScrollAnimations h s)
       (smoothScrollTo h 0))
       (\<lambda>s1. Returned (updatePageTitle p s1)))
       (dispatchPageLoadEvent h p)"

definition loadPage_afterFadeIn :: "host \<Rightarrow> page \<Rightarrow> world \<Rightarrow> world" where
  "loadPage_afterFadeIn h p s = loadPage_settle h (loadPage_tryTail h p s)"

text \<open>
  The host fires the oldest pending timer: the clock reaches its due time and the
  suspended call resumes.
\<close>

definition resume :: "host \<Rightarrow> cont \<Rightarrow> world \<Rightarrow> world" where
  "resume h k s =
     (case k of
        AfterFadeOut p \<Rightarrow> loadPage_afterFadeOut h p (emit (WaitElapsed 150) s)
      | AfterFadeIn p \<Rightarrow> loadPage_afterFadeIn h p (fadeInDone (emit (WaitElapsed 250) s)))"

definition fireTimer :: "host \<Rightarrow> world \<Rightarrow> world" where
  "fireTimer h s =
     (case timers s of
        [] \<Rightarrow> s
      | t # ts \<Rightarrow> resume h (snd t) (s\<lparr>timers := ts, clock := max (clock s) (fst t)\<rparr>))"

text \<open>The two timers of one transition fire.\<close>

definition runTransition :: "host \<Rightarrow> world \<Rightarrow> world" where
  "runTransition h s = fireTimer h (fireTimer h s)"

section \<open>Navigation and history\<close>

definition pageUrl :: "page \<Rightarrow> string" where
  "pageUrl p = (if p = ''home'' then ''/'' else ''/'' @ p)"

text \<open>history.pushState(\{ page \}, '', url): a host may reject the URL.\<close>

definition pushState :: "host \<Rightarrow> page \<Rightarrow> string \<Rightarrow> world \<Rightarrow> outcome" where
  "pushState h p u s =
     (if throws h (PushState u) then Threw (HostException (PushState u)) s
      else Returned (emit (HistoryPushed p u) (s\<lparr>history := history s @ [(p, u)]\<rparr>)))"

definition gtagConfig :: "host \<Rightarrow> string \<Rightarrow> world \<Rightarrow> world" where
  "gtagConfig h u s = (if hasGtag h then emit (GtagConfig u) s else s)"

text \<open>
  navigateTo: loadPage is called without await, so the statements after the call run
  as soon as loadPage has reached its first await (or has returned). There is no try
  block: an exception of pushState leaves navigateTo, with the transition started.
\<close>

definition navigateTo :: "host \<Rightarrow> page \<Rightarrow> world \<Rightarrow> outcome" where
  "navigateTo h p s =
     (if isLoading s then Returned s
      else andThen (pushState h p (pageUrl p) (loadPage p s))
             (\<lambda>s1. Returned (gtagConfig h (pageUrl p) s1)))"

text \<open>
  handleNavigation: the argument is the data-page attribute of the closest ancestor of
  the click target that has one, None when there is none. preventDefault marks the
  event object and changes nothing here.
\<close>

definition handleNavigation :: "host \<Rightarrow> page option \<Rightarrow> world \<Rightarrow> outcome" where
  "handleNavigation h link s =
     (case link of
        None \<Rightarrow> Returned s
      | Some p \<Rightarrow> if p = currentPage s \<or> isLoading s then Returned s else navigateTo h p s)"

text \<open>handlePopState: the argument is event.state.page, None when event.state is null.\<close>

definition handlePopState :: "page option \<Rightarrow> world \<Rightarrow> world" where
  "handlePopState st s = loadPage (case st of None \<Rightarrow> ''home'' | Some p \<Rightarrow> p) s"

text \<open>
  handleKeyboardNavigation: the arguments are event.altKey and event.key. Strings
  compare by code unit (\<open>event.key >= '1'\<close>); a key that passes the comparison
  starts with a digit from 1 to 4, so parseInt reads its leading decimal digits.
  preventDefault marks the event object and changes nothing here.
\<close>

fun strLe :: "string \<Rightarrow> string \<Rightarrow> bool" where
  "strLe [] ys = True"
| "strLe (x # xs) [] = False"
| "strLe (x # xs) (y # ys) =
     (if x = y then strLe xs ys else (of_char x :: nat) < of_char y)"

definition isDigit :: "char \<Rightarrow> bool" where
  "isDigit c = (48 \<le> (of_char c :: nat) \<and> (of_char c :: nat) \<le> 57)"

definition parseInt :: "string \<Rightarrow> nat option" where
  "parseInt k =
     (case takeWhile isDigit k of
        [] \<Rightarrow> None
      | ds \<Rightarrow> Some (foldl (\<lambda>n c. 10 * n + (of_char c - 48)) 0 ds))"

definition shortcutPages :: "page list" where
  "shortcutPages = [''home'', ''about'', ''projects'', ''contact'']"

definition handleKeyboardNavigation :: "host \<Rightarrow> bool \<Rightarrow> string \<Rightarrow> world \<Rightarrow> outcome" where
  "handleKeyboardNavigation h altKey k s =
     (if altKey \<and> strLe ''1'' k \<and> strLe k ''4''
      then (case parseInt k of
              None \<Rightarrow> Returned s
            | Some n \<Rightarrow>
                if 1 \<le> n \<and> n \<le> length shortcutPages
                then navigateTo h (shortcutPages ! (n - 1)) s
                else Returned s)
      else Returned s)"

text \<open>
  The events the host delivers, and a run of the event loop. An exception that leaves
  an event listener is not caught by the class; the loop goes on.
\<close>

datatype event =
    Click "page option"
  | PopState "page option"
  | Keydown bool string
  | TimerFired
  | Intersection "(elem \<times> bool) list"

definition listenerDone :: "outcome \<Rightarrow> world" where
  "listenerDone r =
     (case r of Returned s \<Rightarrow> s | Threw e s \<Rightarrow> s\<lparr>uncaught := uncaught s @ [e]\<rparr>)"

definition dispatch :: "host \<Rightarrow> event \<Rightarrow> world \<Rightarrow> world" where
  "dispatch h ev s =
     (case ev of
        Click link \<Rightarrow> listenerDone (handleNavigation h link s)
      | PopState st \<Rightarrow> handlePopState st s
      | Keydown a k \<Rightarrow> listenerDone (handleKeyboardNavigation h a k s)
      | TimerFired \<Rightarrow> fireTimer h s
      | Intersection ens \<Rightarrow> intersectionChange ens s)"

fun run :: "host \<Rightarrow> event list \<Rightarrow> world \<Rightarrow> world" where
  "run h [] s = s"
| "run h (ev # evs) s = run h evs (dispatch h ev s)"

text \<open>The state an outcome carries, and the exception it threw, if any.\<close>

definition outcomeWorld :: "outcome \<Rightarrow> world" where
  "outcomeWorld r = (case r of Returned s \<Rightarrow> s | Threw e s \<Rightarrow> s)"

definition threw :: "outcome \<Rightarrow> exn option" where
  "threw r = (case r of Returned s \<Rightarrow> None | Threw e s \<Rightarrow> Some e)"

text \<open>
  Hosts. A URL that starts with two slashes (a backslash counts as a slash) names its
  own authority, so for a document on any other origin it is a cross-origin URL. The
  browser host rejects such a URL in pushState and nothing else; the legacy host is the
  same without IntersectionObserver. The strict-markup host rejects the home and about
  payloads in the innerHTML setter, as an XML document does (both templates contain a
  bare ampersand); the read-only host rejects every assignment to innerHTML; the
  frameless host has no requestAnimationFrame.
\<close>

definition isSlash :: "char \<Rightarrow> bool" where
  "isSlash c = (c = CHR ''/'' \<or> c = CHR 0x5C)"

definition crossOrigin :: "string \<Rightarrow> bool" where
  "crossOrigin u = (case u of c1 # c2 # cs \<Rightarrow> isSlash c1 \<and> isSlash c2 | _ \<Rightarrow> False)"

definition browserRejects :: "hostop \<Rightarrow> bool" where
  "browserRejects op = (case op of PushState u \<Rightarrow> crossOrigin u | _ \<Rightarrow> False)"

definition fullHost :: host where
  "fullHost = \<lparr>hasIntersectionObserver = True, hasGtag = False, throws = browserRejects\<rparr>"

definition legacyHost :: host where
  "legacyHost = \<lparr>hasIntersectionObserver = False, hasGtag = False, throws = browserRejects\<rparr>"

definition strictMarkupRejects :: "hostop \<Rightarrow> bool" where
  "strictMarkupRejects op =
     (case op of
        SetInnerHTML c \<Rightarrow> c = HomeContent \<or> c = AboutContent
      | PushState u \<Rightarrow> crossOrigin u
      | _ \<Rightarrow> False)"

definition strictMarkupHost :: host where
  "strictMarkupHost =
     \<lparr>hasIntersectionObserver = True, hasGtag = False, throws = strictMarkupRejects\<rparr>"

definition readOnlyRejects :: "hostop \<Rightarrow> bool" where
  "readOnlyRejects op =
     (case op of SetInnerHTML c \<Rightarrow> True | PushState u \<Rightarrow> crossOrigin u | _ \<Rightarrow> False)"

definition readOnlyHost :: host where
  "readOnlyHost =
     \<lparr>hasIntersectionObserver = True, hasGtag = False, throws = readOnlyRejects\<rparr>"

definition framelessRejects :: "hostop \<Rightarrow> bool" where
  "framelessRejects op =
     (case op of RequestAnimationFrame \<Rightarrow> True | PushState u \<Rightarrow> crossOrigin u | _ \<Rightarrow> False)"

definition framelessHost :: host where
  "framelessHost =
     \<lparr>hasIntersectionObserver = True, hasGtag = False, throws = framelessRejects\<rparr>"

text \<open>
  A state with the fields as lines 8 to 10 of the constructor assign them (currentPage
  home, isLoading false, animationObserver null) over a document with the container and
  the four navigation links, and the state after a completed navigation from home to
  about on the browser host.
\<close>

definition initialWorld :: world where
  "initialWorld =
     \<lparr>currentPage = ''home'', isLoading = False, animationObserver = None,
      hasMainContent = True,
      mainContent = \<lparr>innerHTML = HomeContent, opacity = [], transform = [], transition = []\<rparr>,
      navLinks = [(Some ''home'', True), (Some ''about'', False),
                  (Some ''projects'', False), (Some ''contact'', False)],
      staticBefore = [], contentElems = [], staticAfter = [], swaps = 0, inView = {},
      docTitle = StaticTitle, history = [], timers = [], clock = 0, trace = [],
      uncaught = []\<rparr>"

definition aboutLoaded :: world where
  "aboutLoaded =
     runTransition fullHost (outcomeWorld (navigateTo fullHost ''about'' initialWorld))"

text \<open>
  The constructor (lines 7 to 19) binds four methods by name before it calls init. A
  read of a method name the class does not define yields undefined, and calling bind on
  undefined raises a TypeError, which leaves the constructor before init runs.
\<close>

definition classMethods :: "string list" where
  "classMethods =
     [''init'', ''setup'', ''getPageFromURL'', ''setupNavigation'', ''handleNavigation'',
      ''handlePopState'', ''handleKeyboardNavigation'', ''navigateTo'', ''loadPage'',
      ''updateNavigation'', ''fadeOut'', ''fadeIn'', ''getPageContent'', ''getHomeContent'',
      ''getAboutContent'', ''getProjectsContent'', ''getProjectCards'', ''getContactContent'',
      ''get404Content'', ''getErrorContent'', ''setupScrollEffects'', ''setupAnimations'',
      ''setupScrollAnimations'', ''setupMobileMenu'', ''handleMobileMenu'', ''closeMobileMenu'',
      ''smoothScrollTo'', ''updatePageTitle'', ''dispatchPageLoadEvent'',
      ''setupPerformanceOptimizations'', ''preloadCriticalResources'', ''setupLazyLoading'',
      ''handleResize'']"

definition constructorBinds :: "string list" where
  "constructorBinds =
     [''handleNavigation'', ''handlePopState'', ''handleMobileMenu'', ''handleScroll'']"

datatype construction = Constructed | BindOfUndefined string

fun bindMethods :: "string list \<Rightarrow> construction" where
  "bindMethods [] = Constructed"
| "bindMethods (m # ms) =
     (if m \<in> set classMethods then bindMethods ms else BindOfUndefined m)"



section \<open>Evaluation rules for concrete runs\<close>

lemmas model_defs =
  loadPage_def updateNavigation_def fadeOut_def fadeIn_def fadeInDone_def setInnerHTML_def
  smoothScrollTo_def dispatchPageLoadEvent_def loadPage_catch_def loadPage_finally_def
  loadPage_settle_def loadPage_afterFadeOut_def loadPage_tryTail_def loadPage_afterFadeIn_def
  resume_def fireTimer_def runTransition_def emit_def andThen_def setupScrollAnimations_def
  setupAnimations_def disconnectObserver_def updatePageTitle_def getErrorContent_def
  animatedElements_def navigateTo_def pushState_def gtagConfig_def pageUrl_def
  handleNavigation_def handlePopState_def handleKeyboardNavigation_def parseInt_def
  isDigit_def shortcutPages_def getPageContent_def titleFor_def titlesGet_def titlesOwn_def
  objectPrototypeMembers_def dispatch_def listenerDone_def outcomeWorld_def threw_def
  crossOrigin_def isSlash_def

lemmas world_defs =
  initialWorld_def fullHost_def legacyHost_def browserRejects_def strictMarkupHost_def
  strictMarkupRejects_def readOnlyHost_def readOnlyRejects_def framelessHost_def
  framelessRejects_def

lemmas step_defs =
  fireTimer_def resume_def loadPage_afterFadeOut_def loadPage_afterFadeIn_def
  loadPage_tryTail_def loadPage_settle_def loadPage_catch_def loadPage_finally_def
  setInnerHTML_def fadeIn_def fadeInDone_def andThen_def setupScrollAnimations_def
  disconnectObserver_def smoothScrollTo_def updatePageTitle_def dispatchPageLoadEvent_def
  animatedElements_def getErrorContent_def emit_def

section \<open>Construction\<close>

text \<open>
  The class has no method handleScroll (setupScrollEffects declares a local function
  of that name), so line 16 of the constructor raises a TypeError. The results below are
  about the methods of the class, on an instance with the fields of lines 8 to 10.
\<close>

lemma constructor_raises: "bindMethods constructorBinds = BindOfUndefined ''handleScroll''"
  by (simp add: constructorBinds_def classMethods_def)

section \<open>The phases of a transition\<close>

lemma outcome_simps [simp]:
  "outcomeWorld (Returned s) = s" "outcomeWorld (Threw e s) = s"
  "threw (Returned s) = None" "threw (Threw e s) = Some e"
  by (simp_all add: outcomeWorld_def threw_def)

lemma settle_fields:
  "isLoading (loadPage_settle h r) = False"
  "timers (loadPage_settle h r) = timers (outcomeWorld r)"
  "history (loadPage_settle h r) = history (outcomeWorld r)"
  "inView (loadPage_settle h r) = inView (outcomeWorld r)"
  by (simp_all add: outcomeWorld_def loadPage_settle_def loadPage_finally_def loadPage_catch_def
      setInnerHTML_def emit_def split: outcome.splits)

lemma tryTail_fields:
  "timers (outcomeWorld (loadPage_tryTail h p s)) = timers s"
  "history (outcomeWorld (loadPage_tryTail h p s)) = history s"
  "inView (outcomeWorld (loadPage_tryTail h p s)) = inView s"
  by (simp_all add: outcomeWorld_def loadPage_tryTail_def andThen_def setupScrollAnimations_def
      smoothScrollTo_def updatePageTitle_def dispatchPageLoadEvent_def disconnectObserver_def
      emit_def Let_def split: option.splits)

lemma loadPage_while_loading: "isLoading s \<Longrightarrow> loadPage p s = s"
  by (simp add: loadPage_def)


lemma loadPage_fields:
  "history (loadPage p s) = history s"
  "inView (loadPage p s) = inView s"
  by (simp_all add: loadPage_def updateNavigation_def fadeOut_def emit_def Let_def)

lemma fireTimer_idle: "timers s = [] \<Longrightarrow> fireTimer h s = s"
  by (simp add: fireTimer_def)



lemma fireTimer_fields:
  "history (fireTimer h s) = history s"
  "inView (fireTimer h s) = inView s"
  by (simp_all add: fireTimer_def resume_def loadPage_afterFadeOut_def loadPage_afterFadeIn_def
      settle_fields tryTail_fields setInnerHTML_def fadeIn_def fadeInDone_def
      emit_def split: list.splits cont.splits)

text \<open>The state after each step, on every host.\<close>

lemma loadPage_begin:
  "\<not> isLoading s \<Longrightarrow> hasMainContent s \<Longrightarrow>
   loadPage p s =
     s\<lparr>isLoading := True, currentPage := p,
       mainContent := (mainContent s)\<lparr>opacity := ''0'', transform := ''translateY(20px)'',
              transition := ''all 250ms cubic-bezier(0.4, 0.0, 0.2, 1.0)''\<rparr>,
       navLinks := map (\<lambda>l. (fst l, fst l = Some p)) (navLinks s),
       timers := timers s @ [(clock s + 150, AfterFadeOut p)],
       trace := trace s @ [NavUpdated p, FadeOutStarted]\<rparr>"
  by (simp add: loadPage_def updateNavigation_def fadeOut_def emit_def Let_def)

lemma fireTimer_first:
  assumes "timers s = [(d, AfterFadeOut p)]"
  shows "fireTimer h s =
    (if throws h (SetInnerHTML (getPageContent p))
     then (if throws h (SetInnerHTML ErrorContent)
           then s\<lparr>isLoading := False, timers := [], clock := max (clock s) d,
                  trace := trace s @ [WaitElapsed 150,
                    ConsoleError (ErrorLoadingPage (HostException (SetInnerHTML (getPageContent p))))],
                  uncaught := uncaught s @ [HostException (SetInnerHTML ErrorContent)]\<rparr>
           else s\<lparr>isLoading := False,
                  mainContent := (mainContent s)\<lparr>innerHTML := ErrorContent\<rparr>,
                  contentElems := [], swaps := Suc (swaps s),
                  timers := [], clock := max (clock s) d,
                  trace := trace s @ [WaitElapsed 150,
                    ConsoleError (ErrorLoadingPage (HostException (SetInnerHTML (getPageContent p)))),
                    ContentReplaced ErrorContent]\<rparr>)
     else s\<lparr>mainContent := (mainContent s)\<lparr>innerHTML := getPageContent p, opacity := ''1'',
                 transform := ''translateY(0)''\<rparr>,
            contentElems := map (ContentElem (swaps s)) [0 ..< animatedCount (getPageContent p)],
            swaps := Suc (swaps s),
            timers := [(max (clock s) d + 250, AfterFadeIn p)],
            clock := max (clock s) d,
            trace := trace s @ [WaitElapsed 150, ContentReplaced (getPageContent p),
                       FadeInStarted]\<rparr>)"
  using assms by (simp add: step_defs)

lemma fireTimer_second_noObserver:
  assumes "timers s = [(d, AfterFadeIn p)]" and "\<not> hasIntersectionObserver h"
  shows "fireTimer h s =
    (if throws h (SetInnerHTML ErrorContent)
     then s\<lparr>isLoading := False, timers := [], clock := max (clock s) d,
            animationObserver := (case animationObserver s of None \<Rightarrow> None | Some T \<Rightarrow> Some {}),
            mainContent := (mainContent s)\<lparr>transition := []\<rparr>,
            trace := trace s @ [WaitElapsed 250, TransitionCleared,
                       ConsoleError (ErrorLoadingPage ReferenceError)],
            uncaught := uncaught s @ [HostException (SetInnerHTML ErrorContent)]\<rparr>
     else s\<lparr>isLoading := False, timers := [], clock := max (clock s) d,
            animationObserver := (case animationObserver s of None \<Rightarrow> None | Some T \<Rightarrow> Some {}),
            mainContent := (mainContent s)\<lparr>transition := [], innerHTML := ErrorContent\<rparr>,
            contentElems := [], swaps := Suc (swaps s),
            trace := trace s @ [WaitElapsed 250, TransitionCleared,
                       ConsoleError (ErrorLoadingPage ReferenceError),
                       ContentReplaced ErrorContent]\<rparr>)"
  using assms by (simp add: step_defs Let_def split: option.splits)

lemma fireTimer_second_noFrame:
  assumes "timers s = [(d, AfterFadeIn p)]" and "hasIntersectionObserver h"
    and "throws h RequestAnimationFrame"
  shows "fireTimer h s =
    (if throws h (SetInnerHTML ErrorContent)
     then s\<lparr>isLoading := False, timers := [], clock := max (clock s) d,
            animationObserver := Some (set (staticBefore s @ contentElems s @ staticAfter s)),
            mainContent := (mainContent s)\<lparr>transition := []\<rparr>,
            trace := trace s @ [WaitElapsed 250, TransitionCleared,
                       ObserversArmed (staticBefore s @ contentElems s @ staticAfter s),
                       ConsoleError (ErrorLoadingPage (HostException RequestAnimationFrame))],
            uncaught := uncaught s @ [HostException (SetInnerHTML ErrorContent)]\<rparr>
     else s\<lparr>isLoading := False, timers := [], clock := max (clock s) d,
            animationObserver := Some (set (staticBefore s @ contentElems s @ staticAfter s)),
            mainContent := (mainContent s)\<lparr>transition := [], innerHTML := ErrorContent\<rparr>,
            contentElems := [], swaps := Suc (swaps s),
            trace := trace s @ [WaitElapsed 250, TransitionCleared,
                       ObserversArmed (staticBefore s @ contentElems s @ staticAfter s),
                       ConsoleError (ErrorLoadingPage (HostException RequestAnimationFrame)),
                       ContentReplaced ErrorContent]\<rparr>)"
  using assms by (simp add: step_defs Let_def split: option.splits)

lemma fireTimer_second_noEvent:
  assumes "timers s = [(d, AfterFadeIn p)]" and "hasIntersectionObserver h"
    and "\<not> throws h RequestAnimationFrame" and "throws h NewCustomEvent"
  shows "fireTimer h s =
    (if throws h (SetInnerHTML ErrorContent)
     then s\<lparr>isLoading := False, timers := [], clock := max (clock s) d,
            animationObserver := Some (set (staticBefore s @ contentElems s @ staticAfter s)),
            mainContent := (mainContent s)\<lparr>transition := []\<rparr>,
            docTitle := titleFor p,
            trace := trace s @ [WaitElapsed 250, TransitionCleared,
                       ObserversArmed (staticBefore s @ contentElems s @ staticAfter s),
                       ScrollRequested 0, TitleSet (titleFor p),
                       ConsoleError (ErrorLoadingPage (HostException NewCustomEvent))],
            uncaught := uncaught s @ [HostException (SetInnerHTML ErrorContent)]\<rparr>
     else s\<lparr>isLoading := False, timers := [], clock := max (clock s) d,
            animationObserver := Some (set (staticBefore s @ contentElems s @ staticAfter s)),
            mainContent := (mainContent s)\<lparr>transition := [], innerHTML := ErrorContent\<rparr>,
            contentElems := [], swaps := Suc (swaps s),
            docTitle := titleFor p,
            trace := trace s @ [WaitElapsed 250, TransitionCleared,
                       ObserversArmed (staticBefore s @ contentElems s @ staticAfter s),
                       ScrollRequested 0, TitleSet (titleFor p),
                       ConsoleError (ErrorLoadingPage (HostException NewCustomEvent)),
                       ContentReplaced ErrorContent]\<rparr>)"
  using assms by (simp add: step_defs Let_def split: option.splits)

lemma fireTimer_finish:
  assumes "timers s = [(d, AfterFadeIn p)]" and "hasIntersectionObserver h"
    and "\<not> throws h RequestAnimationFrame" and "\<not> throws h NewCustomEvent"
  shows "fireTimer h s =
     s\<lparr>isLoading := False,
       animationObserver := Some (set (staticBefore s @ contentElems s @ staticAfter s)),
       mainContent := (mainContent s)\<lparr>transition := []\<rparr>,
       docTitle := titleFor p,
       timers := [],
       clock := max (clock s) d,
       trace := trace s @ [WaitElapsed 250, TransitionCleared,
         ObserversArmed (staticBefore s @ contentElems s @ staticAfter s), ScrollRequested 0,
         TitleSet (titleFor p), PageLoaded p (max (clock s) d)]\<rparr>"
  using assms by (simp add: step_defs Let_def split: option.splits)


lemma fireTimer_first_fields:
  assumes "timers s = [(d, AfterFadeOut p)]"
  shows
    "isLoading (fireTimer h s) = (if throws h (SetInnerHTML (getPageContent p)) then False else isLoading s)"
    "timers (fireTimer h s) =
       (if throws h (SetInnerHTML (getPageContent p)) then []
        else [(max (clock s) d + 250, AfterFadeIn p)])"
    "clock (fireTimer h s) = max (clock s) d"
    "currentPage (fireTimer h s) = currentPage s"
    "docTitle (fireTimer h s) = docTitle s"
    "animationObserver (fireTimer h s) = animationObserver s"
    "staticBefore (fireTimer h s) = staticBefore s"
    "staticAfter (fireTimer h s) = staticAfter s"
    "contentElems (fireTimer h s) =
       (if throws h (SetInnerHTML (getPageContent p))
        then (if throws h (SetInnerHTML ErrorContent) then contentElems s else [])
        else map (ContentElem (swaps s)) [0 ..< animatedCount (getPageContent p)])"
    "mainContent (fireTimer h s) =
       (if throws h (SetInnerHTML (getPageContent p))
        then (if throws h (SetInnerHTML ErrorContent) then mainContent s
              else (mainContent s)\<lparr>innerHTML := ErrorContent\<rparr>)
        else (mainContent s)\<lparr>innerHTML := getPageContent p, opacity := ''1'',
                 transform := ''translateY(0)''\<rparr>)"
    "uncaught (fireTimer h s) =
       (if throws h (SetInnerHTML (getPageContent p)) \<and> throws h (SetInnerHTML ErrorContent)
        then uncaught s @ [HostException (SetInnerHTML ErrorContent)] else uncaught s)"
    "trace (fireTimer h s) =
       trace s @ [WaitElapsed 150]
       @ (if throws h (SetInnerHTML (getPageContent p))
          then ConsoleError (ErrorLoadingPage (HostException (SetInnerHTML (getPageContent p))))
               # (if throws h (SetInnerHTML ErrorContent) then []
                  else [ContentReplaced ErrorContent])
          else [ContentReplaced (getPageContent p), FadeInStarted])"
  by (simp_all add: fireTimer_first [OF assms])

lemma fireTimer_second_fields:
  assumes "timers s = [(d, AfterFadeIn p)]"
  shows "isLoading (fireTimer h s) = False \<and> timers (fireTimer h s) = []
    \<and> clock (fireTimer h s) = max (clock s) d \<and> currentPage (fireTimer h s) = currentPage s
    \<and> animationObserver (fireTimer h s) =
       (if hasIntersectionObserver h
        then Some (set (staticBefore s @ contentElems s @ staticAfter s))
        else (case animationObserver s of None \<Rightarrow> None | Some T \<Rightarrow> Some {}))
    \<and> docTitle (fireTimer h s) =
       (if hasIntersectionObserver h \<and> \<not> throws h RequestAnimationFrame
        then titleFor p else docTitle s)
    \<and> mainContent (fireTimer h s) =
       (if (\<not> hasIntersectionObserver h \<or> throws h RequestAnimationFrame
             \<or> throws h NewCustomEvent) \<and> \<not> throws h (SetInnerHTML ErrorContent)
        then (mainContent s)\<lparr>transition := [], innerHTML := ErrorContent\<rparr>
        else (mainContent s)\<lparr>transition := []\<rparr>)
    \<and> uncaught (fireTimer h s) =
       (if (\<not> hasIntersectionObserver h \<or> throws h RequestAnimationFrame
             \<or> throws h NewCustomEvent) \<and> throws h (SetInnerHTML ErrorContent)
        then uncaught s @ [HostException (SetInnerHTML ErrorContent)] else uncaught s)
    \<and> trace (fireTimer h s) =
       trace s @ [WaitElapsed 250, TransitionCleared]
       @ (if hasIntersectionObserver h
          then ObserversArmed (staticBefore s @ contentElems s @ staticAfter s)
               # (if throws h RequestAnimationFrame then []
                  else [ScrollRequested 0, TitleSet (titleFor p)]
                       @ (if throws h NewCustomEvent then []
                          else [PageLoaded p (max (clock s) d)]))
          else [])
       @ (if \<not> hasIntersectionObserver h \<or> throws h RequestAnimationFrame
              \<or> throws h NewCustomEvent
          then ConsoleError (ErrorLoadingPage
                 (if \<not> hasIntersectionObserver h then ReferenceError
                  else if throws h RequestAnimationFrame
                       then HostException RequestAnimationFrame
                       else HostException NewCustomEvent))
               # (if throws h (SetInnerHTML ErrorContent) then []
                  else [ContentReplaced ErrorContent])
          else [])"
proof -
  consider (a) "\<not> hasIntersectionObserver h"
    | (b) "hasIntersectionObserver h" "throws h RequestAnimationFrame"
    | (c) "hasIntersectionObserver h" "\<not> throws h RequestAnimationFrame" "throws h NewCustomEvent"
    | (d) "hasIntersectionObserver h" "\<not> throws h RequestAnimationFrame" "\<not> throws h NewCustomEvent"
    by blast
  note cs = this
  show ?thesis
  proof (cases rule: cs)
    case a
    then show ?thesis by (simp add: fireTimer_second_noObserver [OF assms])
  next
    case b
    then show ?thesis by (simp add: fireTimer_second_noFrame [OF assms])
  next
    case c
    then show ?thesis by (simp add: fireTimer_second_noEvent [OF assms])
  next
    case d
    then show ?thesis by (simp add: fireTimer_finish [OF assms])
  qed
qed

section \<open>navigateTo and the listeners\<close>

lemma navigateTo_while_loading: "isLoading s \<Longrightarrow> navigateTo h p s = Returned s"
  by (simp add: navigateTo_def)

lemma navigateTo_begin:
  assumes "\<not> isLoading s"
  shows "navigateTo h p s =
     (if throws h (PushState (pageUrl p))
      then Threw (HostException (PushState (pageUrl p))) (loadPage p s)
      else Returned ((loadPage p s)
             \<lparr>history := history s @ [(p, pageUrl p)],
              trace := trace (loadPage p s) @ [HistoryPushed p (pageUrl p)]
                       @ (if hasGtag h then [GtagConfig (pageUrl p)] else [])\<rparr>))"
  using assms
  by (simp add: navigateTo_def andThen_def gtagConfig_def pushState_def emit_def loadPage_fields)

lemma navigateTo_fields:
  "isLoading (outcomeWorld (navigateTo h p s)) = isLoading (loadPage p s)"
  "timers (outcomeWorld (navigateTo h p s)) = timers (loadPage p s)"
  "inView (outcomeWorld (navigateTo h p s)) = inView s"
  by (simp_all add: navigateTo_def andThen_def gtagConfig_def pushState_def emit_def
      loadPage_fields loadPage_while_loading)

lemma listenerDone_fields:
  "isLoading (listenerDone r) = isLoading (outcomeWorld r)"
  "timers (listenerDone r) = timers (outcomeWorld r)"
  "inView (listenerDone r) = inView (outcomeWorld r)"
  "history (listenerDone r) = history (outcomeWorld r)"
  by (simp_all add: listenerDone_def split: outcome.splits)

lemma handleNavigation_cases:
  "handleNavigation h link s = Returned s
   \<or> (\<exists>p. handleNavigation h link s = navigateTo h p s)"
  by (auto simp add: handleNavigation_def split: option.splits)

lemma handleKeyboardNavigation_cases:
  "handleKeyboardNavigation h a k s = Returned s
   \<or> (\<exists>p. handleKeyboardNavigation h a k s = navigateTo h p s)"
  by (auto simp add: handleKeyboardNavigation_def split: option.splits)

section \<open>The guard and the timers\<close>









section \<open>Content resolution (getPageContent)\<close>

text \<open>
  C6. getPageContent compares the page with four string literals and returns a template
  literal in every branch; no operation in it can throw, so it is a total function into
  the payloads. It returns the page's own payload for home, about, projects and contact,
  and the not-found payload for every other identifier.
\<close>

theorem getPageContent_resolves:
  "getPageContent ''home'' = HomeContent \<and> getPageContent ''about'' = AboutContent
   \<and> getPageContent ''projects'' = ProjectsContent
   \<and> getPageContent ''contact'' = ContactContent
   \<and> (p \<notin> {''home'', ''about'', ''projects'', ''contact''}
        \<longrightarrow> getPageContent p = NotFoundContent)"
  by (simp add: getPageContent_def)

theorem getPageContent_resolves_witness:
  "''blog'' \<notin> {''home'', ''about'', ''projects'', ''contact''}
   \<and> getPageContent ''blog'' = NotFoundContent"
  using getPageContent_resolves [of "''blog''"] by simp

section \<open>Titles (updatePageTitle)\<close>

lemma titleFor_known:
  "titleFor ''home'' = HomeTitle \<and> titleFor ''about'' = AboutTitle
   \<and> titleFor ''projects'' = ProjectsTitle \<and> titleFor ''contact'' = ContactTitle"
  by (simp add: titleFor_def titlesGet_def titlesOwn_def)

lemma titleFor_fallback:
  assumes "titlesOwn p = None" and "p \<notin> set objectPrototypeMembers"
  shows "titleFor p = HomeTitle"
  using assms by (simp add: titleFor_def titlesGet_def)

text \<open>
  C10. The page constructor is outside the four known pages and resolves to the
  not-found payload, but \<open>titles[page]\<close> finds the member inherited from
  Object.prototype, which is truthy, so the fallback to the home title is not taken:
  after the transition the title is the string conversion of that member.
\<close>

theorem title_of_inherited_name:
  "getPageContent ''constructor'' = NotFoundContent
   \<and> innerHTML (mainContent (runTransition fullHost (loadPage ''constructor'' initialWorld)))
       = NotFoundContent
   \<and> docTitle (runTransition fullHost (loadPage ''constructor'' initialWorld))
       = InheritedMember ''constructor''
   \<and> InheritedMember ''constructor'' \<noteq> HomeTitle"
  by (simp add: model_defs world_defs)

section \<open>Missing observer capability\<close>

text \<open>
  C5. setupAnimations tests for IntersectionObserver and skips the enhancement with a
  warning, but loadPage calls setupScrollAnimations directly: on a host without the
  capability the constructor call raises a ReferenceError inside the try block, the
  catch block logs it and replaces the freshly swapped page by the error payload, and
  the title is never set.
\<close>

theorem missing_observer_renders_error:
  "setupAnimations legacyHost initialWorld
     = Returned (emit (ConsoleWarn ObserverNotSupported) initialWorld)
   \<and> innerHTML (mainContent (fireTimer legacyHost (loadPage ''about'' initialWorld)))
       = AboutContent
   \<and> innerHTML (mainContent (runTransition legacyHost (loadPage ''about'' initialWorld)))
       = ErrorContent
   \<and> trace (runTransition legacyHost (loadPage ''about'' initialWorld))
       = [NavUpdated ''about'', FadeOutStarted, WaitElapsed 150, ContentReplaced AboutContent,
          FadeInStarted, WaitElapsed 250, TransitionCleared,
          ConsoleError (ErrorLoadingPage ReferenceError), ContentReplaced ErrorContent]
   \<and> docTitle (runTransition legacyHost (loadPage ''about'' initialWorld)) = StaticTitle"
  by (simp add: model_defs world_defs)

section \<open>Missing container\<close>

text \<open>
  C8. When the document has no element with id main-content, loadPage logs the
  condition and returns: isLoading is false again, the container and the timers are
  untouched (nothing is rendered, no wait is started), and the call returns normally.
  The only changes are the ones made before the lookup (currentPage, the navigation
  links) and the log entry.
\<close>

theorem loadPage_missing_container:
  assumes "\<not> isLoading s" and "\<not> hasMainContent s"
  shows "loadPage p s =
           s\<lparr>currentPage := p,
             navLinks := map (\<lambda>l. (fst l, fst l = Some p)) (navLinks s),
             trace := trace s @ [NavUpdated p, ConsoleError ContainerNotFound]\<rparr>
         \<and> \<not> isLoading (loadPage p s)
         \<and> mainContent (loadPage p s) = mainContent s
         \<and> timers (loadPage p s) = timers s"
  using assms by (simp add: loadPage_def updateNavigation_def emit_def Let_def)

theorem loadPage_missing_container_witness:
  "\<not> isLoading (initialWorld\<lparr>hasMainContent := False\<rparr>)
   \<and> \<not> hasMainContent (initialWorld\<lparr>hasMainContent := False\<rparr>)
   \<and> trace (loadPage ''about'' (initialWorld\<lparr>hasMainContent := False\<rparr>))
       = [NavUpdated ''about'', ConsoleError ContainerNotFound]
   \<and> \<not> isLoading (loadPage ''about'' (initialWorld\<lparr>hasMainContent := False\<rparr>))
   \<and> innerHTML (mainContent (loadPage ''about'' (initialWorld\<lparr>hasMainContent := False\<rparr>)))
       = HomeContent
   \<and> timers (loadPage ''about'' (initialWorld\<lparr>hasMainContent := False\<rparr>)) = []"
proof -
  have h1: "\<not> isLoading (initialWorld\<lparr>hasMainContent := False\<rparr>)"
    by (simp add: initialWorld_def)
  have h2: "\<not> hasMainContent (initialWorld\<lparr>hasMainContent := False\<rparr>)"
    by simp
  show ?thesis
    using h1 h2 loadPage_missing_container [OF h1 h2, of "''about''"]
    by (simp add: initialWorld_def)
qed

section \<open>The observer callback\<close>

lemma onEntry_exact:
  "onEntry en s =
     (if snd en
      then s\<lparr>inView := insert (fst en) (inView s),
             animationObserver := map_option (\<lambda>T. T - {fst en}) (animationObserver s)\<rparr>
      else s)"
  by (simp add: onEntry_def unobserve_def split: option.splits)

lemma observerCallback_exact:
  "observerCallback ens s =
     s\<lparr>inView := inView s \<union> {e. (e, True) \<in> set ens},
       animationObserver :=
         map_option (\<lambda>T. T - {e. (e, True) \<in> set ens}) (animationObserver s)\<rparr>"
proof (induction ens arbitrary: s)
  case Nil
  then show ?case by (simp add: option.map_ident)
next
  case (Cons en ens)
  obtain e b where en: "en = (e, b)" by (cases en)
  have s1: "\<And>A P. insert e (A \<union> {x. P x}) = A \<union> {x. x = e \<or> P x}"
    by auto
  have s2: "\<And>T. T - {e} - {x. (x, True) \<in> set ens}
        = T - {x. x = e \<or> (x, True) \<in> set ens}"
    by auto
  show ?case
    by (cases b)
       (simp_all add: Cons.IH en onEntry_exact s1 s2 option.map_comp comp_def)
qed

lemma observed_filter:
  "{e. (e, True) \<in> set (filter (\<lambda>en. observed s (fst en)) ens)}
     = {e. observed s e \<and> (e, True) \<in> set ens}"
  by auto

lemma intersectionChange_exact:
  "intersectionChange ens s =
     s\<lparr>inView := inView s \<union> {e. observed s e \<and> (e, True) \<in> set ens},
       animationObserver :=
         map_option (\<lambda>T. T - {e. observed s e \<and> (e, True) \<in> set ens})
           (animationObserver s)\<rparr>"
  by (simp only: intersectionChange_def observerCallback_exact observed_filter)

lemma dispatch_keeps_inView: "e \<in> inView s \<Longrightarrow> e \<in> inView (dispatch h ev s)"
proof (cases ev)
  case (Click link)
  assume "e \<in> inView s"
  then show ?thesis using Click handleNavigation_cases [of h link s]
    by (auto simp add: dispatch_def listenerDone_fields navigateTo_fields)
next
  case (PopState st)
  assume "e \<in> inView s"
  then show ?thesis using PopState by (simp add: dispatch_def handlePopState_def loadPage_fields)
next
  case (Keydown a k)
  assume "e \<in> inView s"
  then show ?thesis using Keydown handleKeyboardNavigation_cases [of h a k s]
    by (auto simp add: dispatch_def listenerDone_fields navigateTo_fields)
next
  case TimerFired
  assume "e \<in> inView s"
  then show ?thesis using TimerFired by (simp add: dispatch_def fireTimer_fields)
next
  case (Intersection ens)
  assume "e \<in> inView s"
  then show ?thesis using Intersection by (simp add: dispatch_def intersectionChange_exact)
qed

lemma run_keeps_inView: "e \<in> inView s \<Longrightarrow> e \<in> inView (run h evs s)"
  by (induction evs arbitrary: s) (simp_all add: dispatch_keeps_inView)

section \<open>The loading guard and the error payload\<close>




section \<open>Order of the steps of a transition\<close>




section \<open>What navigateTo does before and after the waits\<close>

text \<open>
  C3, as the claim states it, fails: loadPage assigns currentPage before its first
  await, and navigateTo does not await loadPage, so it pushes the history entry while
  the transition is in flight. After navigateTo from home to about the guard is set and
  the fade-out timer is pending, yet currentPage already names about and the entry is
  on the history stack.
\<close>

theorem navigateTo_in_flight_counterexample:
  "currentPage initialWorld = ''home'' \<and> history initialWorld = []
   \<and> threw (navigateTo fullHost ''about'' initialWorld) = None
   \<and> isLoading (outcomeWorld (navigateTo fullHost ''about'' initialWorld))
   \<and> timers (outcomeWorld (navigateTo fullHost ''about'' initialWorld))
       = [(150, AfterFadeOut ''about'')]
   \<and> innerHTML (mainContent (outcomeWorld (navigateTo fullHost ''about'' initialWorld)))
       = HomeContent
   \<and> currentPage (outcomeWorld (navigateTo fullHost ''about'' initialWorld)) = ''about''
   \<and> history (outcomeWorld (navigateTo fullHost ''about'' initialWorld))
       = [(''about'', ''/about'')]"
  by (simp add: model_defs world_defs)

text \<open>
  C3, amended. When navigateTo begins a transition (nothing loading, the container
  present), loadPage sets isLoading and currentPage before its first wait, and navigateTo then calls pushState at once, while
  the transition is in flight and the old content and title are in place: the entry is
  pushed unless the host rejects the URL, in which case the exception leaves navigateTo
  with the transition running. Nothing is pushed later. The title is set and the
  page-loaded notification is emitted only after the second wait, and only if no
  earlier step of the try block threw. isLoading is cleared when the transition ends:
  after the second wait, or right after the first wait when the swap is rejected.
\<close>

theorem navigateTo_timeline:
  assumes "\<not> isLoading s" and "timers s = []" and "hasMainContent s"
  shows "let r = navigateTo h p s; s1 = outcomeWorld r; s2 = fireTimer h s1;
             s3 = fireTimer h s2;
             url = (if p = ''home'' then ''/'' else ''/'' @ p);
             c = getPageContent p
         in threw r = (if throws h (PushState url) then Some (HostException (PushState url))
                       else None)
            \<and> isLoading s1 \<and> currentPage s1 = p
            \<and> timers s1 = [(clock s + 150, AfterFadeOut p)]
            \<and> history s1 = (if throws h (PushState url) then history s
                             else history s @ [(p, url)])
            \<and> docTitle s1 = docTitle s
            \<and> innerHTML (mainContent s1) = innerHTML (mainContent s)
            \<and> trace s1 = trace s @ [NavUpdated p, FadeOutStarted]
                 @ (if throws h (PushState url) then []
                    else HistoryPushed p url # (if hasGtag h then [GtagConfig url] else []))
            \<and> isLoading s2 = (\<not> throws h (SetInnerHTML c))
            \<and> currentPage s2 = p \<and> docTitle s2 = docTitle s \<and> history s2 = history s1
            \<and> trace s2 = trace s1 @ [WaitElapsed 150]
                 @ (if throws h (SetInnerHTML c)
                    then ConsoleError (ErrorLoadingPage (HostException (SetInnerHTML c)))
                         # (if throws h (SetInnerHTML ErrorContent) then []
                            else [ContentReplaced ErrorContent])
                    else [ContentReplaced c, FadeInStarted])
            \<and> \<not> isLoading s3 \<and> currentPage s3 = p \<and> history s3 = history s1
            \<and> docTitle s3 =
                 (if \<not> throws h (SetInnerHTML c) \<and> hasIntersectionObserver h
                      \<and> \<not> throws h RequestAnimationFrame
                  then titleFor p else docTitle s)
            \<and> trace s3 = trace s2
                 @ (if throws h (SetInnerHTML c) then []
                    else [WaitElapsed 250, TransitionCleared]
                      @ (if hasIntersectionObserver h
                         then ObserversArmed
                                (staticBefore s
                                 @ map (ContentElem (swaps s)) [0 ..< animatedCount c]
                                 @ staticAfter s)
                              # (if throws h RequestAnimationFrame then []
                                 else [ScrollRequested 0, TitleSet (titleFor p)]
                                      @ (if throws h NewCustomEvent then []
                                         else [PageLoaded p (clock s + 400)]))
                         else [])
                      @ (if \<not> hasIntersectionObserver h \<or> throws h RequestAnimationFrame
                             \<or> throws h NewCustomEvent
                         then ConsoleError (ErrorLoadingPage
                                (if \<not> hasIntersectionObserver h then ReferenceError
                                 else if throws h RequestAnimationFrame
                                      then HostException RequestAnimationFrame
                                      else HostException NewCustomEvent))
                              # (if throws h (SetInnerHTML ErrorContent) then []
                                 else [ContentReplaced ErrorContent])
                         else []))"
proof -
  define s0 where "s0 = loadPage p s"
  define s1 where "s1 = outcomeWorld (navigateTo h p s)"
  define s2 where "s2 = fireTimer h s1"
  define s3 where "s3 = fireTimer h s2"
  have u: "pageUrl p = (if p = ''home'' then ''/'' else ''/'' @ p)"
    by (simp add: pageUrl_def)
  have b: "s0 = s\<lparr>isLoading := True, currentPage := p,
       mainContent := (mainContent s)\<lparr>opacity := ''0'', transform := ''translateY(20px)'',
              transition := ''all 250ms cubic-bezier(0.4, 0.0, 0.2, 1.0)''\<rparr>,
       navLinks := map (\<lambda>l. (fst l, fst l = Some p)) (navLinks s),
       timers := timers s @ [(clock s + 150, AfterFadeOut p)],
       trace := trace s @ [NavUpdated p, FadeOutStarted]\<rparr>"
    unfolding s0_def using assms(1,3) by (rule loadPage_begin)
  note n = navigateTo_begin [OF assms(1), of h p, folded s0_def]
  have th: "threw (navigateTo h p s) =
      (if throws h (PushState (pageUrl p)) then Some (HostException (PushState (pageUrl p)))
       else None)"
    by (simp add: n)
  have n1: "s1 = (if throws h (PushState (pageUrl p)) then s0
       else s0\<lparr>history := history s @ [(p, pageUrl p)],
              trace := trace s0 @ [HistoryPushed p (pageUrl p)]
                       @ (if hasGtag h then [GtagConfig (pageUrl p)] else [])\<rparr>)"
    by (simp add: s1_def n)
  have a1: "isLoading s1 \<and> currentPage s1 = p
            \<and> timers s1 = [(clock s + 150, AfterFadeOut p)]
            \<and> history s1 = (if throws h (PushState (pageUrl p)) then history s
                             else history s @ [(p, pageUrl p)])
            \<and> docTitle s1 = docTitle s
            \<and> innerHTML (mainContent s1) = innerHTML (mainContent s)
            \<and> trace s1 = trace s @ [NavUpdated p, FadeOutStarted]
                 @ (if throws h (PushState (pageUrl p)) then []
                    else HistoryPushed p (pageUrl p)
                         # (if hasGtag h then [GtagConfig (pageUrl p)] else []))
            \<and> clock s1 = clock s \<and> swaps s1 = swaps s \<and> staticBefore s1 = staticBefore s
            \<and> staticAfter s1 = staticAfter s"
    using assms(2) by (simp add: n1 b)
  then have t1: "timers s1 = [(clock s + 150, AfterFadeOut p)]" by blast
  note f1 = fireTimer_first_fields [OF t1, of h, folded s2_def]
  have hs: "history s2 = history s1" "history s3 = history s2"
    by (simp_all add: s2_def s3_def fireTimer_fields)
  show ?thesis
  proof (cases "throws h (SetInnerHTML (getPageContent p))")
    case True
    then have "timers s2 = []" by (simp add: f1)
    then have e: "s3 = s2" by (simp add: s3_def fireTimer_idle)
    show ?thesis using True a1 th
      by (simp only: Let_def u [symmetric]) (simp add: e f1 hs flip: s1_def s2_def s3_def)
  next
    case False
    then have t2: "timers s2 = [(max (clock s1) (clock s + 150) + 250, AfterFadeIn p)]"
      by (simp add: f1)
    note f2 = fireTimer_second_fields [OF t2, of h, folded s3_def]
    show ?thesis using False a1 th
      by (simp only: Let_def u [symmetric]) (simp add: f2 f1 hs flip: s1_def s2_def s3_def)
  qed
qed

theorem navigateTo_timeline_witness:
  "\<not> isLoading initialWorld \<and> timers initialWorld = [] \<and> hasMainContent initialWorld
   \<and> threw (navigateTo fullHost ''about'' initialWorld) = None
   \<and> isLoading (outcomeWorld (navigateTo fullHost ''about'' initialWorld))
   \<and> currentPage (outcomeWorld (navigateTo fullHost ''about'' initialWorld)) = ''about''
   \<and> history (outcomeWorld (navigateTo fullHost ''about'' initialWorld))
       = [(''about'', ''/about'')]
   \<and> docTitle (outcomeWorld (navigateTo fullHost ''about'' initialWorld)) = StaticTitle
   \<and> isLoading (fireTimer fullHost (outcomeWorld (navigateTo fullHost ''about'' initialWorld)))
   \<and> docTitle (fireTimer fullHost (outcomeWorld (navigateTo fullHost ''about'' initialWorld)))
       = StaticTitle
   \<and> \<not> isLoading (fireTimer fullHost (fireTimer fullHost
        (outcomeWorld (navigateTo fullHost ''about'' initialWorld))))
   \<and> docTitle (fireTimer fullHost (fireTimer fullHost
        (outcomeWorld (navigateTo fullHost ''about'' initialWorld)))) = AboutTitle
   \<and> history (fireTimer fullHost (fireTimer fullHost
        (outcomeWorld (navigateTo fullHost ''about'' initialWorld))))
       = [(''about'', ''/about'')]"
proof -
  have h1: "\<not> isLoading initialWorld" and h2: "timers initialWorld = []"
    and h3: "hasMainContent initialWorld"
    by (simp_all add: initialWorld_def)
  have v: "getPageContent ''about'' = AboutContent" "titleFor ''about'' = AboutTitle"
    "history initialWorld = []" "docTitle initialWorld = StaticTitle"
    "\<not> throws fullHost (SetInnerHTML AboutContent)"
    "\<not> throws fullHost (PushState ''/about'')"
    "hasIntersectionObserver fullHost" "\<not> throws fullHost RequestAnimationFrame"
    by (simp_all add: getPageContent_def titleFor_def titlesGet_def titlesOwn_def
        initialWorld_def fullHost_def browserRejects_def crossOrigin_def isSlash_def)
  show ?thesis
    using h1 h2 h3 navigateTo_timeline [OF h1 h2 h3, where h = fullHost and p = "''about''"]
    by (simp add: Let_def v)
qed

section \<open>History entries\<close>

text \<open>
  C4, as the claim states it, fails for a page whose URL the host rejects: a click on a
  link with data-page /example.com makes navigateTo call pushState with the URL
  //example.com, which names another origin; pushState raises, nothing is pushed, and
  the transition to the not-found page runs all the same.
\<close>

theorem cross_origin_push_counterexample:
  "\<not> isLoading initialWorld \<and> ''/example.com'' \<noteq> currentPage initialWorld
   \<and> history initialWorld = []
   \<and> threw (handleNavigation fullHost (Some ''/example.com'') initialWorld)
       = Some (HostException (PushState ''//example.com''))
   \<and> history (outcomeWorld (handleNavigation fullHost (Some ''/example.com'') initialWorld))
       = []
   \<and> history (run fullHost [Click (Some ''/example.com''), TimerFired, TimerFired] initialWorld)
       = []
   \<and> currentPage (run fullHost [Click (Some ''/example.com''), TimerFired, TimerFired]
        initialWorld) = ''/example.com''"
  by (simp add: model_defs world_defs)

text \<open>
  C4, amended. A click that navigates from the current page to a different page B (no
  transition in flight) pushes exactly one entry, with state page B and URL / for home
  and /B otherwise, provided the host accepts that URL in pushState; if the host rejects
  it, the exception leaves the listener and no entry is pushed. The rest of the
  transition pushes nothing, and the same holds for navigateTo called directly. A
  popstate replay to B pushes nothing, neither at once nor during its transition.
\<close>

theorem history_pushed_once:
  assumes "\<not> isLoading s" and "B \<noteq> currentPage s"
  shows "let url = (if B = ''home'' then ''/'' else ''/'' @ B);
             pushed = (if throws h (PushState url) then history s
                       else history s @ [(B, url)])
         in threw (handleNavigation h (Some B) s) =
              (if throws h (PushState url) then Some (HostException (PushState url))
               else None)
            \<and> history (outcomeWorld (handleNavigation h (Some B) s)) = pushed
            \<and> history (run h [Click (Some B), TimerFired, TimerFired] s) = pushed
            \<and> history (outcomeWorld (navigateTo h B s)) = pushed
            \<and> history (handlePopState (Some B) s) = history s
            \<and> history (run h [PopState (Some B), TimerFired, TimerFired] s) = history s"
proof -
  have u: "pageUrl B = (if B = ''home'' then ''/'' else ''/'' @ B)"
    by (simp add: pageUrl_def)
  have hn: "handleNavigation h (Some B) s = navigateTo h B s"
    using assms by (simp add: handleNavigation_def)
  note n = navigateTo_begin [OF assms(1), of h B]
  have a: "threw (navigateTo h B s) =
       (if throws h (PushState (pageUrl B)) then Some (HostException (PushState (pageUrl B)))
        else None)
     \<and> history (outcomeWorld (navigateTo h B s)) =
       (if throws h (PushState (pageUrl B)) then history s
        else history s @ [(B, pageUrl B)])"
    by (simp add: n loadPage_fields)
  show ?thesis using a
    by (simp only: Let_def u [symmetric])
       (simp add: hn dispatch_def listenerDone_fields fireTimer_fields
          handlePopState_def loadPage_fields)
qed

theorem history_pushed_once_witness:
  "\<not> isLoading initialWorld \<and> ''projects'' \<noteq> currentPage initialWorld
   \<and> threw (handleNavigation fullHost (Some ''projects'') initialWorld) = None
   \<and> history (run fullHost [Click (Some ''projects''), TimerFired, TimerFired] initialWorld)
       = [(''projects'', ''/projects'')]
   \<and> history (run fullHost [PopState (Some ''projects''), TimerFired, TimerFired] initialWorld)
       = []"
proof -
  have h1: "\<not> isLoading initialWorld" and h2: "''projects'' \<noteq> currentPage initialWorld"
    and v: "history initialWorld = []"
    by (simp_all add: initialWorld_def)
  have w: "\<not> throws fullHost (PushState ''/projects'')"
    by (simp add: fullHost_def browserRejects_def crossOrigin_def isSlash_def)
  show ?thesis
    using h1 h2 history_pushed_once [OF h1 h2, where h = fullHost]
    by (simp add: Let_def v w)
qed

section \<open>Navigation to the current page\<close>

text \<open>
  C2. The click handler returns at once when the link names the current page, but
  navigateTo tests isLoading only, and the shortcut handler calls it without the
  comparison: with home as the current page and nothing loading, Alt+1 runs a full
  transition to home and pushes the entry (home, /); and pressing Alt+2 again after the
  transition to about has completed runs it again and pushes a second entry.
\<close>

theorem navigateTo_same_page_runs_again:
  "currentPage initialWorld = ''home'' \<and> \<not> isLoading initialWorld
   \<and> history initialWorld = []
   \<and> handleNavigation fullHost (Some ''home'') initialWorld = Returned initialWorld
   \<and> handleKeyboardNavigation fullHost True ''1'' initialWorld
       = navigateTo fullHost ''home'' initialWorld
   \<and> threw (navigateTo fullHost ''home'' initialWorld) = None
   \<and> isLoading (outcomeWorld (navigateTo fullHost ''home'' initialWorld))
   \<and> history (outcomeWorld (navigateTo fullHost ''home'' initialWorld)) = [(''home'', ''/'')]
   \<and> trace (run fullHost [Keydown True ''1'', TimerFired, TimerFired] initialWorld)
       = [NavUpdated ''home'', FadeOutStarted, HistoryPushed ''home'' ''/'', WaitElapsed 150,
          ContentReplaced HomeContent, FadeInStarted, WaitElapsed 250, TransitionCleared,
          ObserversArmed [ContentElem 0 0, ContentElem 0 1, ContentElem 0 2, ContentElem 0 3,
                          ContentElem 0 4],
          ScrollRequested 0, TitleSet HomeTitle, PageLoaded ''home'' 400]
   \<and> history (run fullHost [Keydown True ''2'', TimerFired, TimerFired, Keydown True ''2'']
        initialWorld)
       = [(''about'', ''/about''), (''about'', ''/about'')]"
  by (simp add: model_defs world_defs upt_rec)

section \<open>One-shot reveal\<close>

text \<open>
  C9. A report of the observer reveals exactly the watched elements that it reports as
  intersecting, unobserves exactly those, and changes nothing else: a watched element
  reported as intersecting has the class in-view and is no longer watched when the
  callback returns; every other element is watched and revealed as before; a report
  that an element does not intersect, or a report about an element that is not
  watched, changes nothing. An element that has the class keeps it under every sequence
  of events (clicks, history replays, shortcuts, timers, further reports).
\<close>

theorem reveal_one_shot:
  "intersectionChange ens s =
     s\<lparr>inView := inView s \<union> {e. observed s e \<and> (e, True) \<in> set ens},
       animationObserver :=
         map_option (\<lambda>T. T - {e. observed s e \<and> (e, True) \<in> set ens})
           (animationObserver s)\<rparr>
   \<and> (observed s e \<and> (e, True) \<in> set ens \<longrightarrow>
        e \<in> inView (intersectionChange ens s) \<and> \<not> observed (intersectionChange ens s) e)
   \<and> (observed (intersectionChange ens s) e'
        = (observed s e' \<and> (e', True) \<notin> set ens))
   \<and> (e' \<in> inView (intersectionChange ens s)
        = (e' \<in> inView s \<or> observed s e' \<and> (e', True) \<in> set ens))
   \<and> intersectionChange [(e, False)] s = s
   \<and> (\<not> observed s e \<longrightarrow> intersectionChange [(e, b)] s = s)
   \<and> (e \<in> inView s \<longrightarrow> e \<in> inView (run h evs s))"
proof -
  have x: "intersectionChange ens s =
     s\<lparr>inView := inView s \<union> {e. observed s e \<and> (e, True) \<in> set ens},
       animationObserver :=
         map_option (\<lambda>T. T - {e. observed s e \<and> (e, True) \<in> set ens})
           (animationObserver s)\<rparr>"
    by (rule intersectionChange_exact)
  have o: "observed (intersectionChange ens s) e'
        = (observed s e' \<and> (e', True) \<notin> set ens)" for e'
    by (cases "animationObserver s") (auto simp add: x observed_def)
  have v: "e' \<in> inView (intersectionChange ens s)
        = (e' \<in> inView s \<or> observed s e' \<and> (e', True) \<in> set ens)" for e'
    by (simp add: x)
  have n: "intersectionChange [(e, False)] s = s"
    by (simp add: intersectionChange_def onEntry_def)
  have u: "\<not> observed s e \<Longrightarrow> intersectionChange [(e, b)] s = s"
    by (simp add: intersectionChange_def)
  from x o v n u run_keeps_inView show ?thesis by blast
qed

theorem reveal_one_shot_witness:
  "observed aboutLoaded (ContentElem 0 0) \<and> observed aboutLoaded (ContentElem 0 1)
   \<and> (ContentElem 0 0, True) \<in> set [(ContentElem 0 1, False), (ContentElem 0 0, True)]
   \<and> ContentElem 0 0 \<in> inView
        (intersectionChange [(ContentElem 0 1, False), (ContentElem 0 0, True)] aboutLoaded)
   \<and> \<not> observed
        (intersectionChange [(ContentElem 0 1, False), (ContentElem 0 0, True)] aboutLoaded)
        (ContentElem 0 0)
   \<and> observed
        (intersectionChange [(ContentElem 0 1, False), (ContentElem 0 0, True)] aboutLoaded)
        (ContentElem 0 1)
   \<and> ContentElem 0 1 \<notin> inView
        (intersectionChange [(ContentElem 0 1, False), (ContentElem 0 0, True)] aboutLoaded)
   \<and> ContentElem 0 0 \<in> inView
        (run fullHost [Intersection [(ContentElem 0 0, False)],
                       Intersection [(ContentElem 0 0, True)],
                       Click (Some ''home''), TimerFired, TimerFired]
          (intersectionChange [(ContentElem 0 1, False), (ContentElem 0 0, True)] aboutLoaded))
   \<and> intersectionChange [(ContentElem 0 0, True)]
        (intersectionChange [(ContentElem 0 1, False), (ContentElem 0 0, True)] aboutLoaded)
       = intersectionChange [(ContentElem 0 1, False), (ContentElem 0 0, True)] aboutLoaded"
proof -
  let ?ens = "[(ContentElem 0 1, False), (ContentElem 0 0, True)]"
  let ?s1 = "intersectionChange ?ens aboutLoaded"
  have a: "animationObserver aboutLoaded = Some {ContentElem 0 0, ContentElem 0 1}"
    "inView aboutLoaded = {}"
    by (simp_all add: aboutLoaded_def model_defs world_defs upt_rec)
  have h1: "observed aboutLoaded (ContentElem 0 0)" "observed aboutLoaded (ContentElem 0 1)"
    by (simp_all add: observed_def a)
  have h2: "(ContentElem 0 0, True) \<in> set ?ens" "(ContentElem 0 1, True) \<notin> set ?ens"
    by simp_all
  have r1: "ContentElem 0 0 \<in> inView ?s1 \<and> \<not> observed ?s1 (ContentElem 0 0)"
    using h1 h2 reveal_one_shot [where ens = ?ens and s = aboutLoaded and e = "ContentElem 0 0"] by blast
  have r2: "observed ?s1 (ContentElem 0 1) \<and> ContentElem 0 1 \<notin> inView ?s1"
    using h1 h2 a reveal_one_shot [where ens = ?ens and s = aboutLoaded and e' = "ContentElem 0 1"] by blast
  have r3: "ContentElem 0 0 \<in> inView
        (run fullHost [Intersection [(ContentElem 0 0, False)],
                       Intersection [(ContentElem 0 0, True)],
                       Click (Some ''home''), TimerFired, TimerFired] ?s1)"
    using r1 reveal_one_shot [where s = ?s1 and e = "ContentElem 0 0"] by blast
  have r4: "intersectionChange [(ContentElem 0 0, True)] ?s1 = ?s1"
    using r1 reveal_one_shot [where s = ?s1 and e = "ContentElem 0 0"] by blast
  from h1 h2 r1 r2 r3 r4 show ?thesis by blast
qed

end
